theory Spec2Isabelle
  imports Main "HOL-Library.Word"
begin

section \<open>Error values (errors.go)\<close>

text \<open>
  A Go \<^verbatim>\<open>error\<close> is an interface value. What \<^verbatim>\<open>errors.go\<close> and the Sentry middleware
  observe of one is its \<^verbatim>\<open>Error()\<close> text and two optional capabilities, probed by type
  assertion: \<^verbatim>\<open>StackTracer\<close> (a \<^verbatim>\<open>StackTrace()\<close> method) and \<^verbatim>\<open>Causer\<close> (a
  \<^verbatim>\<open>Cause()\<close> method, whose result may be nil).

  \<^item> \<open>StackTrace e = None\<close>: the dynamic type does not implement \<^verbatim>\<open>StackTracer\<close>;
    \<open>Some st\<close>: it does, and \<^verbatim>\<open>StackTrace()\<close> returns \<open>st\<close>.
  \<^item> \<open>Cause e = None\<close>: the dynamic type does not implement \<^verbatim>\<open>Causer\<close>;
    \<open>Some None\<close>: it does, and \<^verbatim>\<open>Cause()\<close> returns nil;
    \<open>Some (Some c)\<close>: it does, and \<^verbatim>\<open>Cause()\<close> returns \<open>c\<close>.

  An interface value that may be nil is an \<open>error option\<close>. Values of a datatype are
  finite, so every caused-by chain modelled here is finite and free of cycles.
\<close>

type_synonym uintptr = "64 word"

text \<open>\<^verbatim>\<open>errors.Frame\<close> is a \<^verbatim>\<open>uintptr\<close>; \<^verbatim>\<open>errors.StackTrace\<close> is \<^verbatim>\<open>[]Frame\<close>.\<close>

type_synonym Frame = uintptr
type_synonym StackTrace = "Frame list"

datatype error =
  MkError (Error: string) (StackTrace: "StackTrace option") (Cause: "error option option")

subsection \<open>ErrorChain\<close>

text \<open>
  The type assertion \<^verbatim>\<open>x.(Causer)\<close> in its two-result form, as \<^verbatim>\<open>ErrorChain\<close> uses
  it. The result is the first value, \<^verbatim>\<open>cause\<close>; the second, \<^verbatim>\<open>ok\<close>, is true exactly
  when the first is not nil. The assertion holds when \<^verbatim>\<open>x\<close> is not nil and its dynamic
  type has a \<^verbatim>\<open>Cause\<close> method; when it does not hold, the first value is the zero value
  of the asserted type, the nil interface.
\<close>

definition assert_Causer :: "error option \<Rightarrow> error option" where
  "assert_Causer x =
     (case x of
        None \<Rightarrow> None
      | Some e \<Rightarrow> (case Cause e of None \<Rightarrow> None | Some c \<Rightarrow> Some e))"

text \<open>The call \<^verbatim>\<open>cause.Cause()\<close> on a value that implements \<^verbatim>\<open>Causer\<close>.\<close>

definition call_Cause :: "error \<Rightarrow> error option" where
  "call_Cause cause = (case Cause cause of Some c \<Rightarrow> c | None \<Rightarrow> None)"

text \<open>
  The loop \<^verbatim>\<open>for ok { ... }\<close> on the variables \<^verbatim>\<open>causeChain\<close> and \<^verbatim>\<open>cause\<close>: while
  \<^verbatim>\<open>cause\<close> is not nil, append it and assign \<^verbatim>\<open>cause.Cause().(Causer)\<close>. The result is
  the slice together with the final value of \<^verbatim>\<open>cause\<close>. The loop ends because every
  chain of causes of a value is finite.
\<close>

function ErrorChain_loop :: "error list \<Rightarrow> error option \<Rightarrow> error list \<times> error option" where
  "ErrorChain_loop causeChain None = (causeChain, None)"
| "ErrorChain_loop causeChain (Some cause) =
     ErrorChain_loop (causeChain @ [cause]) (assert_Causer (call_Cause cause))"
  by pat_completeness auto
termination
proof (relation "measure (\<lambda>(causeChain, cause). size_option size cause)")
  show "wf (measure (\<lambda>(causeChain, cause). size_option size cause))"
    by simp
next
  fix causeChain :: "error list" and cause :: error
  show "((causeChain @ [cause], assert_Causer (call_Cause cause)), (causeChain, Some cause))
      \<in> measure (\<lambda>(causeChain, cause). size_option size cause)"
    by (cases cause) (auto simp: assert_Causer_def call_Cause_def split: option.splits)
qed

text \<open>
  \<^verbatim>\<open>ErrorChain\<close>: the first assertion \<^verbatim>\<open>cause, ok := e.(Causer)\<close>, the loop, and after
  it \<^verbatim>\<open>if cause != nil { causeChain = append(causeChain, cause.(error)) }\<close>.
\<close>

definition ErrorChain :: "error option \<Rightarrow> error list" where
  "ErrorChain e =
     (case ErrorChain_loop [] (assert_Causer e) of
        (causeChain, None) \<Rightarrow> causeChain
      | (causeChain, Some cause) \<Rightarrow> causeChain @ [cause])"

text \<open>
  The chain as the specification words it (section 4.1): every error from the given one
  down to the first that exposes no Cause relation or whose cause is nil, that last one
  included.
\<close>

fun ChainOf :: "error option \<Rightarrow> error list" where
  "ChainOf None = []"
| "ChainOf (Some (MkError m st None)) = [MkError m st None]"
| "ChainOf (Some (MkError m st (Some c))) = MkError m st (Some c) # ChainOf c"

definition implementsCauser :: "error \<Rightarrow> bool" where
  "implementsCauser e = (Cause e \<noteq> None)"

section \<open>The default error handler (errors.go)\<close>

subsection \<open>Collaborators\<close>

text \<open>
  Values of type \<^verbatim>\<open>interface{}\<close>: what the context's key/value store holds and what a
  panic carries. Strings, integers and the two runtime errors the code below can raise
  are told apart; nil is \<open>None\<close> of \<open>any option\<close>.
\<close>

datatype runtime_error = TypeAssertionError | IndexOutOfRange int

datatype any = StringValue string | IntValue int | RuntimeError runtime_error

text \<open>
  A call either returns, or panics with a value, or panics with nil. \<open>PanicNil\<close> is a
  panic for which \<^verbatim>\<open>recover()\<close> returns nil: \<^verbatim>\<open>panic(nil)\<close> in the Go before 1.21, for
  which this code was written. From Go 1.21 on, \<^verbatim>\<open>panic(nil)\<close> carries a
  \<^verbatim>\<open>*runtime.PanicNilError\<close> and is a \<open>Panic\<close> with a value.
\<close>

datatype 'a outcome = Return 'a | Panic any | PanicNil

text \<open>The display record of one chain entry (\<^verbatim>\<open>ErrorStack\<close> in the source).\<close>

record ErrorStack =
  Msg :: string
  Stack :: string
  HasStack :: bool

text \<open>
  The values stored under the keys of the two \<^verbatim>\<open>map[string]interface{}\<close> literals the
  handler builds: the JSON document and the template data.
\<close>

datatype field =
  ErrorStacksField "ErrorStack list"
| IntField int
| AnyField "any option"
| DataField "string \<rightharpoonup> any"

type_synonym document = "string \<rightharpoonup> field"

text \<open>
  The request context, as far as the handler reads it: \<^verbatim>\<open>c.Get(key)\<close>, \<^verbatim>\<open>c.Data()\<close>,
  the request's headers (\<^verbatim>\<open>Header.Get\<close> is \<open>''''\<close> for a missing header), and the
  error the response writer answers a write or an encode with.
\<close>

record Request =
  Method :: string
  URL :: string
  Header :: "string \<rightharpoonup> string"

definition Header_Get :: "Request \<Rightarrow> string \<Rightarrow> string" where
  "Header_Get r key = (case Header r key of None \<Rightarrow> [] | Some v \<Rightarrow> v)"

record Context =
  Get :: "string \<rightharpoonup> any"
  Data :: "string \<rightharpoonup> any"
  Request :: Request
  Write_result :: "string \<Rightarrow> error option"
  Encode_result :: "document \<Rightarrow> error option"

text \<open>What the handler does to its collaborators, in order.\<close>

datatype event =
  Log_Error "error option"
| WriteHeader int
| Write string
| Encode document

text \<open>
  Library and runtime functions the repository calls and does not define. They are
  parameters of the model:
  \<^item> \<open>ToLower\<close>: \<^verbatim>\<open>strings.ToLower\<close>;
  \<^item> \<open>Sprintf_plus_v\<close>: \<^verbatim>\<open>fmt.Sprintf("%+v", st)\<close> on an \<^verbatim>\<open>errors.StackTrace\<close>;
  \<^item> \<open>Render\<close>: \<^verbatim>\<open>velvet.Render\<close> on a template and its data;
  \<^item> \<open>callers\<close>: the call stack \<^verbatim>\<open>errors.WithStack\<close> and \<^verbatim>\<open>errors.New\<close> capture;
  \<^item> \<open>Sprint\<close>: \<^verbatim>\<open>fmt.Sprint\<close> of a panic value;
  \<^item> \<open>FuncForPC\<close>, \<open>FileLine\<close>: \<^verbatim>\<open>runtime.FuncForPC\<close> (nil is \<open>None\<close>) and
    \<^verbatim>\<open>(*runtime.Func).FileLine\<close>; a \<^verbatim>\<open>*runtime.Func\<close> is named by its function's name;
  \<^item> \<open>NewStacktraceFrame\<close>: \<^verbatim>\<open>raven.NewStacktraceFrame\<close>, which may return nil.
\<close>

type_synonym Func = string

record StacktraceFrame =
  Filename :: string
  Lineno :: int
  InApp :: bool

record library =
  ToLower :: "string \<Rightarrow> string"
  Sprintf_plus_v :: "StackTrace \<Rightarrow> string"
  Render :: "string \<Rightarrow> document \<Rightarrow> error + string"
  callers :: StackTrace
  Sprint :: "any \<Rightarrow> string"
  FuncForPC :: "uintptr \<Rightarrow> Func option"
  FileLine :: "Func \<Rightarrow> uintptr \<Rightarrow> string \<times> int"
  NewStacktraceFrame :: "uintptr \<Rightarrow> string \<Rightarrow> int \<Rightarrow> int \<Rightarrow> string list \<Rightarrow> StacktraceFrame option"

text \<open>
  \<^verbatim>\<open>errors.WithStack(err)\<close> for a non-nil \<^verbatim>\<open>err\<close>: same text, the captured stack, and
  \<^verbatim>\<open>err\<close> as cause. \<^verbatim>\<open>errors.New(msg)\<close> of the same package: the text, the captured
  stack, and no \<^verbatim>\<open>Cause\<close> method.
\<close>

definition WithStack :: "library \<Rightarrow> error \<Rightarrow> error" where
  "WithStack lib err = MkError (Error err) (Some (callers lib)) (Some (Some err))"

definition errors_New :: "library \<Rightarrow> string \<Rightarrow> error" where
  "errors_New lib msg = MkError msg (Some (callers lib)) None"

subsection \<open>The templates\<close>

definition devErrorTmpl :: string where
  \<open>devErrorTmpl = ''
<html>
<head>
	<title>{{status}} - ERROR!</title>
	<style>
		body {
			font-family: helvetica;
		}
		table {
			width: 100%;
		}
		th {
			text-align: left;
		}
		tr:nth-child(even) {
		  background-color: #dddddd;
		}
		td {
			margin: 0px;
			padding: 10px;
		}
		pre {
			display: block;
			padding: 9.5px;
			margin: 0 0 10px;
			font-size: 13px;
			line-height: 1.42857143;
			color: #333;
			word-break: break-all;
			word-wrap: break-word;
			background-color: #f5f5f5;
			border: 1px solid #ccc;
			border-radius: 4px;
		}
	</style>
</head>
<body>
<h1>{{status}} - ERROR!</h1>
{{#each errors as |error|}}
<pre>{{ error.Msg }}</pre>
{{#if error.HasStack }}
<pre>{{ error.Stack }}</pre>
{{/if}}
{{/each}}
<hr>
<h3>Context</h3>
<pre>{{#each data as |k v|}}
{{inspect k}}: {{inspect v}}
{{/each}}</pre>
<hr>
<h3>Routes</h3>
<table id="buffalo-routes-table">
	<thead>
		<tr>
			<th>METHOD</th>
			<th>PATH</th>
			<th>HANDLER</th>
		</tr>
	</thead>
	<tbody>
		{{#each routes as |route|}}
			<tr>
				<td>{{route.Method}}</td>
				<td>{{route.Path}}</td>
				<td><code>{{route.HandlerName}}</code></td>
			</tr>
		{{/each}}
	</tbody>
</table>
</body>
</html>
''\<close>

definition prodErrorTmpl :: string where
  \<open>prodErrorTmpl = ''
<h1>We're Sorry!</h1>
<p>
It looks like something went wrong! Don't worry, we are aware of the problem and are looking into it.
</p>
<p>
Sorry if this has caused you any problems. Please check back again later.
</p>
''\<close>

subsection \<open>defaultErrorHandler\<close>

text \<open>
  The test \<^verbatim>\<open>env != nil && env.(string) == "production"\<close>. The type assertion has no
  \<^verbatim>\<open>ok\<close> result, so it panics on a value that is not a string.
\<close>

definition env_production :: "any option \<Rightarrow> bool outcome" where
  "env_production env =
     (case env of
        None \<Rightarrow> Return False
      | Some (StringValue s) \<Rightarrow> Return (s = ''production'')
      | Some _ \<Rightarrow> Panic (RuntimeError TypeAssertionError))"

text \<open>The body of the loop over the chain: the display record of one entry.\<close>

definition eStack_of :: "library \<Rightarrow> error \<Rightarrow> ErrorStack" where
  "eStack_of lib item =
     (case StackTrace item of
        Some st \<Rightarrow> \<lparr>Msg = Error item, Stack = Sprintf_plus_v lib st, HasStack = True\<rparr>
      | None \<Rightarrow> \<lparr>Msg = Error item, Stack = [], HasStack = False\<rparr>)"

fun eStacks_loop :: "library \<Rightarrow> error list \<Rightarrow> ErrorStack list \<Rightarrow> ErrorStack list" where
  "eStacks_loop lib [] eStacks = eStacks"
| "eStacks_loop lib (item # errorSlice) eStacks =
     eStacks_loop lib errorSlice (eStacks @ [eStack_of lib item])"

text \<open>
  The in-place reversal \<^verbatim>\<open>for i := len(eStacks)/2 - 1; i >= 0; i--\<close>. The counter of
  the model is \<open>i + 1\<close>, so that it stays a natural number; the loop starts at
  \<open>length eStacks div 2\<close>.
\<close>

fun reverse_loop :: "nat \<Rightarrow> ErrorStack list \<Rightarrow> ErrorStack list" where
  "reverse_loop 0 eStacks = eStacks"
| "reverse_loop (Suc i) eStacks =
     (let opp = length eStacks - 1 - i
      in reverse_loop i (eStacks[i := eStacks ! opp, opp := eStacks ! i]))"

text \<open>The two \<^verbatim>\<open>map[string]interface{}\<close> literals: the JSON document and the template data.\<close>

definition json_document :: "ErrorStack list \<Rightarrow> int \<Rightarrow> document" where
  "json_document eStacks status =
     [''errors'' \<mapsto> ErrorStacksField eStacks, ''code'' \<mapsto> IntField status]"

definition template_data :: "Context \<Rightarrow> ErrorStack list \<Rightarrow> int \<Rightarrow> document" where
  "template_data c eStacks status =
     [''routes'' \<mapsto> AnyField (Get c ''routes''),
      ''errors'' \<mapsto> ErrorStacksField eStacks,
      ''status'' \<mapsto> IntField status,
      ''data'' \<mapsto> DataField (Data c)]"

text \<open>
  The statements after the production branch (source lines 93 to 149): log, write the
  status, build and reverse the display records, then switch on the lower-cased
  content type. In the XML case nothing is written and the handler returns its own
  argument \<^verbatim>\<open>err\<close>.
\<close>

definition developerPath ::
    "library \<Rightarrow> int \<Rightarrow> error option \<Rightarrow> Context \<Rightarrow> event list \<times> error option outcome" where
  "developerPath lib status err c =
     (let errorSlice = ErrorChain err;
          eStacks0 = eStacks_loop lib errorSlice [];
          eStacks = reverse_loop (length eStacks0 div 2) eStacks0;
          ct = ToLower lib (Header_Get (Request c) ''Content-Type'');
          logged = [Log_Error err, WriteHeader status]
      in if ct \<in> set [''application/json'', ''text/json'', ''json''] then
           (let doc = json_document eStacks status
            in (logged @ [Encode doc], Return (Encode_result c doc)))
         else if ct \<in> set [''application/xml'', ''text/xml'', ''xml''] then
           (logged, Return err)
         else
           (case Render lib devErrorTmpl (template_data c eStacks status) of
              Inl rerr \<Rightarrow> (logged, Return (Some (WithStack lib rerr)))
            | Inr t \<Rightarrow> (logged @ [WriteHeader 404, Write t], Return (Write_result c t))))"

definition defaultErrorHandler ::
    "library \<Rightarrow> int \<Rightarrow> error option \<Rightarrow> Context \<Rightarrow> event list \<times> error option outcome" where
  "defaultErrorHandler lib status err c =
     (case env_production (Get c ''env'') of
        Panic r \<Rightarrow> ([], Panic r)
      | PanicNil \<Rightarrow> ([], PanicNil)
      | Return True \<Rightarrow> ([WriteHeader status, Write prodErrorTmpl], Return None)
      | Return False \<Rightarrow> developerPath lib status err c)"

text \<open>
  The bodies passed to \<^verbatim>\<open>Write\<close>, in the order of the calls, and whether a text occurs in
  a body (\<^verbatim>\<open>strings.Contains\<close>).
\<close>

fun bodies_written :: "event list \<Rightarrow> string list" where
  "bodies_written [] = []"
| "bodies_written (Write b # es) = b # bodies_written es"
| "bodies_written (_ # es) = bodies_written es"

fun HasPrefix :: "string \<Rightarrow> string \<Rightarrow> bool" where
  "HasPrefix s [] = True"
| "HasPrefix [] (p # prefix) = False"
| "HasPrefix (ch # s) (p # prefix) = (ch = p \<and> HasPrefix s prefix)"

fun Contains :: "string \<Rightarrow> string \<Rightarrow> bool" where
  "Contains [] substr = (substr = [])"
| "Contains (ch # s) substr = (HasPrefix (ch # s) substr \<or> Contains s substr)"

text \<open>The statuses passed to \<^verbatim>\<open>WriteHeader\<close>, in the order of the calls.\<close>

fun statuses_written :: "event list \<Rightarrow> int list" where
  "statuses_written [] = []"
| "statuses_written (WriteHeader n # es) = n # statuses_written es"
| "statuses_written (_ # es) = statuses_written es"

section \<open>The Sentry middleware (middleware/sentry.go)\<close>

text \<open>
  \<^verbatim>\<open>sentry.go\<close> holds several drafts of the middleware, all with the same deferred
  function. The one modelled is the draft that reports through \<^verbatim>\<open>buffalo.ErrorChain\<close>
  and \<^verbatim>\<open>buffalo.StackTracer\<close>, the two exports of \<^verbatim>\<open>errors.go\<close> (source lines 97 to 172,
  with \<^verbatim>\<open>buildErrPacket\<close>). The values of \<^verbatim>\<open>raven-go\<close> are free constructors recording
  their arguments.
\<close>

datatype Stacktrace =
  Stacktrace (Frames: "StacktraceFrame list")
| NewStacktrace int int "string list"

datatype Exception = NewException error "Stacktrace option"

datatype Interface =
  ExceptionInterface Exception
| Exceptions (Values: "Exception list")
| NewHttp Request

record Packet =
  Message :: string
  Interfaces :: "Interface list"

definition NewPacket :: "string \<Rightarrow> Interface list \<Rightarrow> Packet" where
  "NewPacket message interfaces = \<lparr>Message = message, Interfaces = interfaces\<rparr>"

text \<open>\<^verbatim>\<open>pc\<close>: \<^verbatim>\<open>uintptr(frame) - 1\<close>, which wraps at zero.\<close>

definition pc :: "Frame \<Rightarrow> uintptr" where
  "pc frame = frame - 1"

text \<open>
  The loop of \<^verbatim>\<open>buildSentryStackTrace\<close>, \<^verbatim>\<open>for i := len(trace) - 1; i >= 0; i--\<close>, with
  the counter \<open>i + 1\<close>.
\<close>

fun frames_loop ::
    "library \<Rightarrow> string list \<Rightarrow> StackTrace \<Rightarrow> nat \<Rightarrow> StacktraceFrame list \<Rightarrow> StacktraceFrame list" where
  "frames_loop lib appPackagePrefixes trace 0 sentryFrames = sentryFrames"
| "frames_loop lib appPackagePrefixes trace (Suc i) sentryFrames =
     (case FuncForPC lib (pc (trace ! i)) of
        None \<Rightarrow> frames_loop lib appPackagePrefixes trace i sentryFrames
      | Some fn \<Rightarrow>
          (case FileLine lib fn (pc (trace ! i)) of
             (file, line) \<Rightarrow>
               (case NewStacktraceFrame lib (pc (trace ! i)) file line 3 appPackagePrefixes of
                  None \<Rightarrow> frames_loop lib appPackagePrefixes trace i sentryFrames
                | Some frame \<Rightarrow>
                    frames_loop lib appPackagePrefixes trace i (sentryFrames @ [frame]))))"

definition buildSentryStackTrace :: "library \<Rightarrow> error \<Rightarrow> string list \<Rightarrow> Stacktrace option" where
  "buildSentryStackTrace lib err appPackagePrefixes =
     (case StackTrace err of
        None \<Rightarrow> None
      | Some trace \<Rightarrow>
          Some (Stacktrace (frames_loop lib appPackagePrefixes trace (length trace) [])))"

text \<open>
  What one entry of a trace contributes, the body of that loop read on its own: nothing
  when its program counter resolves to no function or when the frame constructor
  returns nil, the constructed frame otherwise.
\<close>

definition sentry_frame :: "library \<Rightarrow> string list \<Rightarrow> Frame \<Rightarrow> StacktraceFrame option" where
  "sentry_frame lib appPackagePrefixes f =
     (case FuncForPC lib (pc f) of
        None \<Rightarrow> None
      | Some fn \<Rightarrow>
          (case FileLine lib fn (pc f) of
             (file, line) \<Rightarrow> NewStacktraceFrame lib (pc f) file line 3 appPackagePrefixes))"

text \<open>
  The loop of \<^verbatim>\<open>buildErrPacket\<close>, \<^verbatim>\<open>for i := len(chain) - 1; i >= 0; i--\<close>, with the
  counter \<open>i + 1\<close>.
\<close>

fun exceptions_loop ::
    "library \<Rightarrow> string list \<Rightarrow> error list \<Rightarrow> nat \<Rightarrow> Exception list \<Rightarrow> Exception list" where
  "exceptions_loop lib prefixes chain 0 vals = vals"
| "exceptions_loop lib prefixes chain (Suc i) vals =
     exceptions_loop lib prefixes chain i
       (vals @ [NewException (chain ! i) (buildSentryStackTrace lib (chain ! i) prefixes)])"

text \<open>
  \<^verbatim>\<open>buildErrPacket\<close>. The packet literal reads \<^verbatim>\<open>chain[len(chain)-1]\<close>, which panics
  with an index out of range when the chain is empty.
\<close>

definition buildErrPacket :: "library \<Rightarrow> error option \<Rightarrow> string list \<Rightarrow> Context \<Rightarrow> Packet outcome" where
  "buildErrPacket lib err prefixes c =
     (let chain = ErrorChain err;
          sentryExceptions = Exceptions (exceptions_loop lib prefixes chain (length chain) []);
          sentryReports = [sentryExceptions, NewHttp (Request c)]
      in if chain = [] then Panic (RuntimeError (IndexOutOfRange (- 1)))
         else Return \<lparr>Message = Error (chain ! (length chain - 1)), Interfaces = sentryReports\<rparr>)"

text \<open>
  A handler returns an error (nil is \<open>None\<close>) or panics. The middleware's result is the
  list of packets passed to \<^verbatim>\<open>raven.Capture\<close>, in order, and what its caller sees.
\<close>

type_synonym Handler = "Context \<Rightarrow> error option outcome"

text \<open>The function body below the \<^verbatim>\<open>defer\<close>.\<close>

definition Sentry_body ::
    "library \<Rightarrow> string list \<Rightarrow> bool \<Rightarrow> Handler \<Rightarrow> Context \<Rightarrow> Packet list \<times> error option outcome" where
  "Sentry_body lib prefixes panicsOnly next c =
     (case next c of
        Panic r \<Rightarrow> ([], Panic r)
      | PanicNil \<Rightarrow> ([], PanicNil)
      | Return err \<Rightarrow>
          if \<not> panicsOnly \<and> err \<noteq> None then
            (case buildErrPacket lib err prefixes c of
               Panic r \<Rightarrow> ([], Panic r)
             | PanicNil \<Rightarrow> ([], PanicNil)
             | Return packet \<Rightarrow> ([packet], Return err))
          else ([], Return err))"

text \<open>
  The deferred function \<^verbatim>\<open>if r := recover(); r != nil { ...; Capture(packet, nil); panic(r) }\<close>.
  When the body has panicked, \<^verbatim>\<open>recover()\<close> stops the panic and returns its value. With a
  value that is not nil, the deferred function reports it and raises it again. With nil
  the guard fails: nothing is reported, the panic stays recovered, and the handler
  returns the zero value of its unnamed result, a nil error.
\<close>

definition Sentry ::
    "library \<Rightarrow> string list \<Rightarrow> bool \<Rightarrow> Handler \<Rightarrow> Context \<Rightarrow> Packet list \<times> error option outcome" where
  "Sentry lib prefixes panicsOnly next c =
     (case Sentry_body lib prefixes panicsOnly next c of
        (captured, Return err) \<Rightarrow> (captured, Return err)
      | (captured, Panic r) \<Rightarrow>
          (let rStr = Sprint lib r;
               packet = NewPacket rStr
                 [ExceptionInterface
                    (NewException (errors_New lib rStr) (Some (NewStacktrace 3 3 prefixes))),
                  NewHttp (Request c)]
           in (captured @ [packet], Panic r))
      | (captured, PanicNil) \<Rightarrow> (captured, Return None))"

section \<open>ErrorChain over a program state\<close>

text \<open>
  Go errors are mostly pointers to objects, and \<^verbatim>\<open>Cause()\<close> is a method that the
  caller's type supplies: it is dispatched on the dynamic type and may run any code on
  the program's state. To speak of what \<^verbatim>\<open>ErrorChain\<close> does to its input, the same
  function is modelled once more with that state made explicit. An error is the address
  of an object. The method table gives, for an address, the \<^verbatim>\<open>Cause\<close> method of the
  object's dynamic type, if it has one: a function from the state to the returned error
  and the state the call leaves. The state, of any type \<open>'h\<close>, is threaded through the
  loop and returned, and a walk that never ends is \<open>None\<close>.
\<close>

type_synonym addr = nat

type_synonym 'h Cause_method = "'h \<Rightarrow> addr option \<times> 'h"

type_synonym 'h method_table = "addr \<Rightarrow> 'h Cause_method option"

text \<open>The type assertion \<^verbatim>\<open>x.(Causer)\<close> and the call \<^verbatim>\<open>cause.Cause()\<close>.\<close>

definition store_assert_Causer :: "'h method_table \<Rightarrow> addr option \<Rightarrow> addr option" where
  "store_assert_Causer M x =
     (case x of
        None \<Rightarrow> None
      | Some a \<Rightarrow> (case M a of None \<Rightarrow> None | Some m \<Rightarrow> Some a))"

definition store_call_Cause :: "'h method_table \<Rightarrow> 'h \<Rightarrow> addr \<Rightarrow> addr option \<times> 'h" where
  "store_call_Cause M h cause = (case M cause of Some m \<Rightarrow> m h | None \<Rightarrow> (None, h))"

partial_function (option) ErrorChain_store_loop ::
    "'h method_table \<Rightarrow> 'h \<Rightarrow> addr list \<Rightarrow> addr option \<Rightarrow> ('h \<times> addr list \<times> addr option) option" where
  "ErrorChain_store_loop M h causeChain cause =
     (case cause of
        None \<Rightarrow> Some (h, causeChain, None)
      | Some a \<Rightarrow>
          ErrorChain_store_loop M (snd (store_call_Cause M h a)) (causeChain @ [a])
            (store_assert_Causer M (fst (store_call_Cause M h a))))"

definition ErrorChain_store :: "'h method_table \<Rightarrow> 'h \<Rightarrow> addr option \<Rightarrow> ('h \<times> addr list) option" where
  "ErrorChain_store M h e =
     (case ErrorChain_store_loop M h [] (store_assert_Causer M e) of
        None \<Rightarrow> None
      | Some (h', causeChain, None) \<Rightarrow> Some (h', causeChain)
      | Some (h', causeChain, Some cause) \<Rightarrow> Some (h', causeChain @ [cause]))"

text \<open>
  The chain of causes that starts at an address has the shape of the error value \<open>e\<close>,
  and the \<^verbatim>\<open>Cause\<close> methods along it leave the state \<open>h\<close> as it is. Such a chain is
  finite, as \<open>e\<close> is.
\<close>

fun pure_chain :: "'h method_table \<Rightarrow> 'h \<Rightarrow> addr \<Rightarrow> error \<Rightarrow> bool" where
  "pure_chain M h a (MkError m st None) = (M a = None)"
| "pure_chain M h a (MkError m st (Some None)) =
     (case M a of None \<Rightarrow> False | Some f \<Rightarrow> f h = (None, h))"
| "pure_chain M h a (MkError m st (Some (Some e))) =
     (case M a of
        None \<Rightarrow> False
      | Some f \<Rightarrow>
          (case f h of
             (Some a', h') \<Rightarrow> h' = h \<and> pure_chain M h a' e
           | (None, h') \<Rightarrow> False))"

section \<open>Concrete collaborators for the examples\<close>

text \<open>
  A library whose \<^verbatim>\<open>ToLower\<close> lower-cases ASCII letters, whose \<^verbatim>\<open>%+v\<close> formatting
  of a stack trace writes one frame per line, whose template rendering
  succeeds, whose symbol table resolves every program counter but zero (the program
  counter 1 to \<^verbatim>\<open>runtime.goexit\<close>), and whose frame constructor returns nil for
  \<^verbatim>\<open>runtime.goexit\<close>, as \<^verbatim>\<open>raven.NewStacktraceFrame\<close> does.
\<close>

text \<open>
  Modelled from the spec: the \<^verbatim>\<open>%+v\<close> formatting of an \<^verbatim>\<open>errors.StackTrace\<close>, which is
  code of \<^verbatim>\<open>github.com/pkg/errors\<close> and not of this repository. Section 4.2 words it as
  "one frame per line": each frame contributes a line break followed by that frame's
  text, so the text of an empty trace is empty.
\<close>

definition one_frame_per_line :: "(Frame \<Rightarrow> string) \<Rightarrow> StackTrace \<Rightarrow> string" where
  "one_frame_per_line frame_text st = concat (map (\<lambda>f. CHR 0x0A # frame_text f) st)"

definition ascii_lower :: "char \<Rightarrow> char" where
  "ascii_lower ch =
     (if ch \<in> set ''ABCDEFGHIJKLMNOPQRSTUVWXYZ''
      then (case ch of Char b0 b1 b2 b3 b4 b5 b6 b7 \<Rightarrow> Char b0 b1 b2 b3 b4 True b6 b7)
      else ch)"

definition example_Sprint :: "any \<Rightarrow> string" where
  "example_Sprint v =
     (case v of
        StringValue s \<Rightarrow> s
      | IntValue i \<Rightarrow> ''<int>''
      | RuntimeError TypeAssertionError \<Rightarrow> ''interface conversion''
      | RuntimeError (IndexOutOfRange i) \<Rightarrow> ''runtime error: index out of range'')"

definition example_FuncForPC :: "uintptr \<Rightarrow> Func option" where
  "example_FuncForPC p =
     (if p = 0 then None else if p = 1 then Some ''runtime.goexit'' else Some ''main.handler'')"

definition example_NewStacktraceFrame ::
    "uintptr \<Rightarrow> string \<Rightarrow> int \<Rightarrow> int \<Rightarrow> string list \<Rightarrow> StacktraceFrame option" where
  "example_NewStacktraceFrame p file line context appPackagePrefixes =
     (if p = 1 then None
      else Some \<lparr>Filename = file, Lineno = line, InApp = (appPackagePrefixes \<noteq> [])\<rparr>)"

definition example_library :: library where
  "example_library =
     \<lparr>ToLower = map ascii_lower,
      Sprintf_plus_v = one_frame_per_line (\<lambda>f. ''main.handler''),
      Render = (\<lambda>tmpl data. Inr ''<html>''),
      callers = [],
      Sprint = example_Sprint,
      FuncForPC = example_FuncForPC,
      FileLine = (\<lambda>fn p. (''main.go'', uint p)),
      NewStacktraceFrame = example_NewStacktraceFrame\<rparr>"

text \<open>The same library with a template engine that fails.\<close>

definition failing_Render_library :: library where
  "failing_Render_library =
     example_library\<lparr>Render := (\<lambda>tmpl data. Inl (MkError ''render'' None None))\<rparr>"

text \<open>A request context with the given \<^verbatim>\<open>env\<close> value and content type, whose writes succeed.\<close>

definition example_Context :: "any option \<Rightarrow> string \<Rightarrow> Context" where
  "example_Context env ct =
     \<lparr>Get = (\<lambda>k. if k = ''env'' then env else None),
      Data = Map.empty,
      Request = \<lparr>Method = ''GET'', URL = ''/'', Header = [''Content-Type'' \<mapsto> ct]\<rparr>,
      Write_result = (\<lambda>b. None),
      Encode_result = (\<lambda>d. None)\<rparr>"

text \<open>Errors: one with no capability, and wrappers around it.\<close>

definition boom :: error where
  "boom = MkError ''boom'' None None"

definition inner_plain :: error where
  "inner_plain = MkError ''inner'' None None"

definition inner_causer :: error where
  "inner_causer = MkError ''inner'' None (Some None)"

definition outer_of :: "error \<Rightarrow> error" where
  "outer_of inner = MkError ''outer'' None (Some (Some inner))"

definition went_wrong :: error where
  "went_wrong = MkError ''something went wrong'' None None"

definition empty_trace_error :: error where
  "empty_trace_error = MkError ''e'' (Some []) (Some None)"

text \<open>
  States that hold one pointer field per object, and three method tables over them.
  In the first, the objects 0 and 1 have a \<^verbatim>\<open>Cause()\<close> that returns the field. In the
  second, the \<^verbatim>\<open>Cause()\<close> of object 0 returns the field and sets it to nil:
  \<^verbatim>\<open>func (o *once) Cause() error { c := o.cause; o.cause = nil; return c }\<close>. In the
  third, every object is its own cause.
\<close>

definition example_state :: "addr \<Rightarrow> addr option" where
  "example_state a = (if a = 0 then Some 1 else None)"

definition example_methods :: "(addr \<Rightarrow> addr option) method_table" where
  "example_methods a = (if a = 0 \<or> a = 1 then Some (\<lambda>h. (h a, h)) else None)"

definition once_methods :: "(addr \<Rightarrow> addr option) method_table" where
  "once_methods a =
     (if a = 0 then Some (\<lambda>h. (h 0, h(0 := None)))
      else if a = 1 then Some (\<lambda>h. (h 1, h))
      else None)"

definition cyclic_methods :: "(addr \<Rightarrow> addr option) method_table" where
  "cyclic_methods a = Some (\<lambda>h. (Some a, h))"

section \<open>Properties of ErrorChain\<close>

text \<open>The variable \<^verbatim>\<open>cause\<close> is nil when the loop ends, whatever the error.\<close>

lemma ErrorChain_loop_snd: "snd (ErrorChain_loop causeChain cause) = None"
  by (induction causeChain cause rule: ErrorChain_loop.induct) simp_all

lemma ErrorChain_loop_fst:
  "fst (ErrorChain_loop causeChain (assert_Causer x)) =
     causeChain @ takeWhile implementsCauser (ChainOf x)"
proof (induction x arbitrary: causeChain rule: ChainOf.induct)
  case 1
  then show ?case by (simp add: assert_Causer_def)
next
  case (2 m st)
  then show ?case by (simp add: assert_Causer_def implementsCauser_def)
next
  case (3 m st c)
  then show ?case
    by (simp add: assert_Causer_def [of "Some _"] call_Cause_def implementsCauser_def)
qed

text \<open>
  What the code computes: the entries of the chain that implement \<^verbatim>\<open>Causer\<close>. The test
  \<^verbatim>\<open>cause != nil\<close> after the loop never holds, because a failed type assertion has
  left nil in \<^verbatim>\<open>cause\<close>.
\<close>

lemma ErrorChain_takeWhile: "ErrorChain e = takeWhile implementsCauser (ChainOf e)"
proof -
  obtain ch c where eq: "ErrorChain_loop [] (assert_Causer e) = (ch, c)"
    by (cases "ErrorChain_loop [] (assert_Causer e)")
  from eq ErrorChain_loop_snd [of "[]" "assert_Causer e"] have "c = None"
    by simp
  moreover from eq ErrorChain_loop_fst [of "[]" e]
  have "ch = takeWhile implementsCauser (ChainOf e)"
    by simp
  ultimately show ?thesis
    using eq by (simp add: ErrorChain_def)
qed

lemma ErrorChain_simps:
  "ErrorChain None = []"
  "ErrorChain (Some (MkError m st None)) = []"
  "ErrorChain (Some (MkError m st (Some c))) = MkError m st (Some c) # ErrorChain c"
  by (simp_all add: ErrorChain_takeWhile implementsCauser_def)

lemma ErrorChain_no_Causer: "Cause e = None \<Longrightarrow> ErrorChain (Some e) = []"
  by (cases e) (simp add: ErrorChain_simps)

lemma ChainOf_no_Causer: "Cause e = None \<Longrightarrow> ChainOf (Some e) = [e]"
  by (cases e) simp

lemma ChainOf_nonempty: "ChainOf (Some e) \<noteq> []"
  by (cases e; cases "Cause e") auto

lemma ErrorChain_outer_inner_causer:
  "ErrorChain (Some (outer_of inner_causer)) = [outer_of inner_causer, inner_causer]"
  by (simp add: ErrorChain_simps outer_of_def inner_causer_def)

lemma ErrorChain_outer_inner_plain:
  "ErrorChain (Some (outer_of inner_plain)) = [outer_of inner_plain]"
  by (simp add: ErrorChain_simps outer_of_def inner_plain_def)

text \<open>
  C1. The claim: for a non-nil error with a finite chain of N elements, \<^verbatim>\<open>ErrorChain\<close>
  returns N entries, the chain-terminal error included; for an error that exposes no
  Cause relation it returns the singleton. The code's own comment says the final error
  is appended because it need not implement \<^verbatim>\<open>Causer\<close>. It is not: for \<open>boom\<close>, an
  error with no \<^verbatim>\<open>Cause\<close> method, whose chain is \<open>[boom]\<close>, the code returns the empty
  slice.
\<close>

theorem ErrorChain_drops_terminal_error:
  "ErrorChain (Some boom) = [] \<and> ChainOf (Some boom) = [boom]"
  by (simp add: boom_def ErrorChain_def assert_Causer_def)

section \<open>Properties of ErrorChain over a program state\<close>

text \<open>
  \<^verbatim>\<open>ErrorChain\<close> writes nothing itself: when no \<^verbatim>\<open>Cause\<close> method changes the state, a
  walk that returns leaves the state as it found it.
\<close>

lemma ErrorChain_store_loop_frame:
  assumes "ErrorChain_store_loop M h causeChain cause = Some r"
  shows "(\<forall>a m h'. M a = Some m \<longrightarrow> snd (m h') = h') \<longrightarrow> fst r = h \<and> snd (snd r) = None"
proof (rule ErrorChain_store_loop.raw_induct
    [where P = "\<lambda>M h causeChain cause r.
       (\<forall>a m h'. M a = Some m \<longrightarrow> snd (m h') = h') \<longrightarrow> fst r = h \<and> snd (snd r) = None",
     OF _ assms])
  fix loop :: "'a method_table \<Rightarrow> 'a \<Rightarrow> addr list \<Rightarrow> addr option \<Rightarrow> ('a \<times> addr list \<times> addr option) option"
  fix M :: "'a method_table" and h :: 'a and causeChain cause r
  assume IH: "\<And>M h causeChain cause r.
      loop M h causeChain cause = Some r \<Longrightarrow>
      (\<forall>a m h'. M a = Some m \<longrightarrow> snd (m h') = h') \<longrightarrow> fst r = h \<and> snd (snd r) = None"
    and body: "(case cause of
        None \<Rightarrow> Some (h, causeChain, None)
      | Some a \<Rightarrow>
          loop M (snd (store_call_Cause M h a)) (causeChain @ [a])
            (store_assert_Causer M (fst (store_call_Cause M h a)))) = Some r"
  show "(\<forall>a m h'. M a = Some m \<longrightarrow> snd (m h') = h') \<longrightarrow> fst r = h \<and> snd (snd r) = None"
  proof
    assume ro: "\<forall>a m h'. M a = Some m \<longrightarrow> snd (m h') = h'"
    show "fst r = h \<and> snd (snd r) = None"
    proof (cases cause)
      case None
      with body show ?thesis by auto
    next
      case (Some a)
      from ro have same: "snd (store_call_Cause M h a) = h"
        by (auto simp: store_call_Cause_def split: option.splits)
      from Some body have "loop M (snd (store_call_Cause M h a)) (causeChain @ [a])
          (store_assert_Causer M (fst (store_call_Cause M h a))) = Some r"
        by simp
      from IH [OF this] ro same show ?thesis by simp
    qed
  qed
qed

lemma ErrorChain_store_frame:
  "\<forall>a m h'. M a = Some m \<longrightarrow> snd (m h') = h' \<Longrightarrow>
   ErrorChain_store M h e = Some (h1, out) \<Longrightarrow> h1 = h"
  by (auto simp: ErrorChain_store_def split: option.splits prod.splits
      dest!: ErrorChain_store_loop_frame)

text \<open>
  On a chain that is finite and whose \<^verbatim>\<open>Cause\<close> methods leave the state as it is, the walk
  returns with the state unchanged, and its result holds the entries of
  \<open>ErrorChain (Some e)\<close>, the model on values.
\<close>

lemma ErrorChain_store_loop_pure:
  "pure_chain M h a e \<Longrightarrow>
   \<exists>as. ErrorChain_store_loop M h causeChain (store_assert_Causer M (Some a)) =
          Some (h, causeChain @ as, None) \<and>
        list_all2 (pure_chain M h) as (ErrorChain (Some e))"
proof (induction M h a e arbitrary: causeChain rule: pure_chain.induct)
  case (1 M h a m st)
  then have "store_assert_Causer M (Some a) = None"
    by (simp add: store_assert_Causer_def)
  then show ?case
    by (subst ErrorChain_store_loop.simps) (simp add: ErrorChain_simps)
next
  case (2 M h a m st)
  then obtain f where f: "M a = Some f" "f h = (None, h)"
    by (auto split: option.splits)
  then have "store_assert_Causer M (Some a) = Some a"
    and "store_call_Cause M h a = (None, h)"
    and "store_assert_Causer M None = None"
    by (simp_all add: store_assert_Causer_def store_call_Cause_def)
  then have "ErrorChain_store_loop M h causeChain (store_assert_Causer M (Some a)) =
      Some (h, causeChain @ [a], None)"
    by (subst ErrorChain_store_loop.simps, simp, subst ErrorChain_store_loop.simps, simp)
  then show ?case
    using 2 by (simp add: ErrorChain_simps)
next
  case (3 M h a m st e)
  from "3.prems" obtain f a' where f: "M a = Some f" "f h = (Some a', h)"
    and rep: "pure_chain M h a' e"
    by (auto split: option.splits prod.splits)
  from "3.IH" [OF f(1) f(2) [symmetric] refl rep, of "causeChain @ [a]"] obtain as where
    as: "ErrorChain_store_loop M h (causeChain @ [a]) (store_assert_Causer M (Some a')) =
      Some (h, (causeChain @ [a]) @ as, None)"
    and rel: "list_all2 (pure_chain M h) as (ErrorChain (Some e))"
    by blast
  from f have "store_assert_Causer M (Some a) = Some a" and "store_call_Cause M h a = (Some a', h)"
    by (simp_all add: store_assert_Causer_def store_call_Cause_def)
  then have "ErrorChain_store_loop M h causeChain (store_assert_Causer M (Some a)) =
      Some (h, causeChain @ (a # as), None)"
    by (subst ErrorChain_store_loop.simps) (simp add: as)
  moreover have "list_all2 (pure_chain M h) (a # as) (ErrorChain (Some (MkError m st (Some (Some e)))))"
    using rel "3.prems" by (simp add: ErrorChain_simps)
  ultimately show ?case by blast
qed

lemma ErrorChain_store_pure:
  "pure_chain M h a e \<Longrightarrow>
   \<exists>out. ErrorChain_store M h (Some a) = Some (h, out) \<and>
         list_all2 (pure_chain M h) out (ErrorChain (Some e))"
  using ErrorChain_store_loop_pure [of M h a e "[]"] by (auto simp: ErrorChain_store_def)

text \<open>
  C9, as amended. For an error whose chain of causes is finite and whose \<^verbatim>\<open>Cause()\<close>
  methods leave the program's state as it is, \<^verbatim>\<open>ErrorChain\<close> returns, the state after
  the call is the state before it, and so a second call on the same error returns the
  same addresses in the same order: as many as the model on values gives.
\<close>

theorem ErrorChain_store_idempotent:
  "pure_chain M h a e \<Longrightarrow>
   \<exists>out. ErrorChain_store M h (Some a) = Some (h, out) \<and>
         (\<forall>h1 out1. ErrorChain_store M h (Some a) = Some (h1, out1) \<longrightarrow>
            h1 = h \<and> out1 = out \<and> ErrorChain_store M h1 (Some a) = Some (h, out)) \<and>
         length out = length (ErrorChain (Some e))"
proof -
  assume "pure_chain M h a e"
  from ErrorChain_store_pure [OF this]
  obtain out where run: "ErrorChain_store M h (Some a) = Some (h, out)"
    and rel: "list_all2 (pure_chain M h) out (ErrorChain (Some e))"
    by auto
  from rel have "length out = length (ErrorChain (Some e))"
    by (rule list_all2_lengthD)
  with run show ?thesis by auto
qed

lemma example_pure_chain:
  "pure_chain example_methods example_state 0 (outer_of inner_causer)"
  by (simp add: outer_of_def inner_causer_def example_methods_def example_state_def)

theorem ErrorChain_store_idempotent_witness:
  "\<exists>out. ErrorChain_store example_methods example_state (Some 0) = Some (example_state, out) \<and>
         length out = 2"
  using ErrorChain_store_idempotent [OF example_pure_chain]
  by (auto simp: ErrorChain_outer_inner_causer)

text \<open>
  The claim as written, "calling ErrorChain twice yields identical output, the input is
  not mutated", fails when a \<^verbatim>\<open>Cause()\<close> method writes: with the method of object 0
  that returns its field and sets it to nil, the first call returns the objects 0 and
  1 and leaves the field nil, and the second call returns the object 0 alone.
\<close>

lemma once_methods_simps:
  "store_assert_Causer once_methods (Some 0) = Some 0"
  "store_assert_Causer once_methods (Some (Suc 0)) = Some (Suc 0)"
  "store_assert_Causer once_methods None = None"
  "store_call_Cause once_methods h 0 = (h 0, h(0 := None))"
  "store_call_Cause once_methods h (Suc 0) = (h (Suc 0), h)"
  by (simp_all add: store_assert_Causer_def store_call_Cause_def once_methods_def)

lemma example_state_simps:
  "example_state 0 = Some (Suc 0)"
  "example_state (Suc 0) = None"
  by (simp_all add: example_state_def)

theorem ErrorChain_store_once:
  "ErrorChain_store once_methods example_state (Some 0) =
     Some (example_state(0 := None), [0, 1]) \<and>
   ErrorChain_store once_methods (example_state(0 := None)) (Some 0) =
     Some (example_state(0 := None), [0]) \<and>
   example_state 0 = Some 1 \<and> (example_state(0 := None)) 0 = None"
proof (intro conjI)
  have l2: "ErrorChain_store_loop once_methods (example_state(0 := None)) [0, Suc 0] None =
      Some (example_state(0 := None), [0, Suc 0], None)"
    by (subst ErrorChain_store_loop.simps) simp
  have l1: "ErrorChain_store_loop once_methods (example_state(0 := None)) [0] (Some (Suc 0)) =
      Some (example_state(0 := None), [0, Suc 0], None)"
    by (subst ErrorChain_store_loop.simps) (simp add: once_methods_simps example_state_simps l2)
  have l0: "ErrorChain_store_loop once_methods example_state [] (Some 0) =
      Some (example_state(0 := None), [0, Suc 0], None)"
    by (subst ErrorChain_store_loop.simps) (simp add: once_methods_simps example_state_simps l1)
  show "ErrorChain_store once_methods example_state (Some 0) =
     Some (example_state(0 := None), [0, 1])"
    by (simp add: ErrorChain_store_def once_methods_simps l0)
  have m1: "ErrorChain_store_loop once_methods (example_state(0 := None)) [0] None =
      Some (example_state(0 := None), [0], None)"
    by (subst ErrorChain_store_loop.simps) simp
  have m0: "ErrorChain_store_loop once_methods (example_state(0 := None)) [] (Some 0) =
      Some (example_state(0 := None), [0], None)"
    by (subst ErrorChain_store_loop.simps) (simp add: once_methods_simps m1)
  show "ErrorChain_store once_methods (example_state(0 := None)) (Some 0) =
     Some (example_state(0 := None), [0])"
    by (simp add: ErrorChain_store_def once_methods_simps m0)
  show "example_state 0 = Some 1"
    by (simp add: example_state_def)
  show "(example_state(0 := None)) 0 = None"
    by simp
qed

text \<open>No cycle detection: on an object that is its own cause the walk never returns.\<close>

lemma cyclic_methods_simps:
  "store_assert_Causer cyclic_methods (Some a) = Some a"
  "store_call_Cause cyclic_methods h a = (Some a, h)"
  by (simp_all add: store_assert_Causer_def store_call_Cause_def cyclic_methods_def)

lemma cyclic_loop_Some:
  assumes "ErrorChain_store_loop M h causeChain cause = Some r"
  shows "\<not> (M = cyclic_methods \<and> cause = Some 0)"
proof (rule ErrorChain_store_loop.raw_induct
    [where P = "\<lambda>M h causeChain cause r. \<not> (M = cyclic_methods \<and> cause = Some 0)", OF _ assms])
  fix loop :: "(addr \<Rightarrow> addr option) method_table \<Rightarrow> (addr \<Rightarrow> addr option) \<Rightarrow> addr list \<Rightarrow> addr option
      \<Rightarrow> ((addr \<Rightarrow> addr option) \<times> addr list \<times> addr option) option"
  fix M :: "(addr \<Rightarrow> addr option) method_table" and h :: "addr \<Rightarrow> addr option" and causeChain cause r
  assume IH: "\<And>M h causeChain cause r.
      loop M h causeChain cause = Some r \<Longrightarrow> \<not> (M = cyclic_methods \<and> cause = Some 0)"
    and body: "(case cause of
        None \<Rightarrow> Some (h, causeChain, None)
      | Some a \<Rightarrow>
          loop M (snd (store_call_Cause M h a)) (causeChain @ [a])
            (store_assert_Causer M (fst (store_call_Cause M h a)))) = Some r"
  show "\<not> (M = cyclic_methods \<and> cause = Some 0)"
  proof
    assume cyc: "M = cyclic_methods \<and> cause = Some 0"
    with body have "loop cyclic_methods h (causeChain @ [0]) (Some 0) = Some r"
      by (simp add: cyclic_methods_simps)
    from IH [OF this] show False by simp
  qed
qed

lemma ErrorChain_store_cyclic: "ErrorChain_store cyclic_methods h (Some 0) = None"
proof -
  have "ErrorChain_store_loop cyclic_methods h [] (Some 0) = None"
    using cyclic_loop_Some [of cyclic_methods h "[]" "Some 0"]
    by (cases "ErrorChain_store_loop cyclic_methods h [] (Some 0)") auto
  then show ?thesis
    by (simp add: ErrorChain_store_def cyclic_methods_simps)
qed

section \<open>Properties of the default error handler\<close>

lemma eStacks_loop_map:
  "eStacks_loop lib errorSlice eStacks = eStacks @ map (eStack_of lib) errorSlice"
  by (induction errorSlice arbitrary: eStacks) simp_all

lemma reverse_loop_length: "length (reverse_loop n xs) = length xs"
  by (induction n arbitrary: xs) (simp_all add: Let_def)

text \<open>
  The invariant of the in-place reversal: once the counter has come down from \<open>n\<close>, the
  first and the last \<open>n\<close> positions are mirrored and the middle is untouched.
\<close>

lemma reverse_loop_nth:
  "n \<le> length xs div 2 \<Longrightarrow> j < length xs \<Longrightarrow>
   reverse_loop n xs ! j =
     (if j < n \<or> length xs - n \<le> j then xs ! (length xs - 1 - j) else xs ! j)"
proof (induction n arbitrary: xs j)
  case 0
  then show ?case by simp
next
  case (Suc i)
  let ?opp = "length xs - 1 - i"
  let ?ys = "xs[i := xs ! ?opp, ?opp := xs ! i]"
  from Suc.prems have bounds: "i < ?opp" "?opp < length xs"
    by auto
  have step: "reverse_loop (Suc i) xs ! j = reverse_loop i ?ys ! j"
    by (simp add: Let_def)
  have ih: "reverse_loop i ?ys ! j =
      (if j < i \<or> length xs - i \<le> j then ?ys ! (length xs - 1 - j) else ?ys ! j)"
    using Suc.IH [of ?ys j] Suc.prems by simp
  show ?case
    unfolding step ih using bounds Suc.prems(2)
    by (auto simp: nth_list_update)
qed

lemma reverse_loop_rev: "reverse_loop (length xs div 2) xs = rev xs"
proof (rule nth_equalityI)
  show "length (reverse_loop (length xs div 2) xs) = length (rev xs)"
    by (simp add: reverse_loop_length)
next
  fix j
  assume "j < length (reverse_loop (length xs div 2) xs)"
  then have "j < length xs"
    by (simp add: reverse_loop_length)
  then show "reverse_loop (length xs div 2) xs ! j = rev xs ! j"
    by (auto simp: reverse_loop_nth rev_nth intro: arg_cong [where f = "nth xs"])
qed

lemma reverse_loop_map_rev:
  "reverse_loop (length xs div 2) (map f xs) = rev (map f xs)"
  using reverse_loop_rev [of "map f xs"] by simp

text \<open>The developer path with its two loops solved.\<close>

lemma developerPath_eq:
  "developerPath lib status err c =
     (let eStacks = rev (map (eStack_of lib) (ErrorChain err));
          ct = ToLower lib (Header_Get (Request c) ''Content-Type'');
          logged = [Log_Error err, WriteHeader status]
      in if ct \<in> set [''application/json'', ''text/json'', ''json''] then
           (let doc = json_document eStacks status
            in (logged @ [Encode doc], Return (Encode_result c doc)))
         else if ct \<in> set [''application/xml'', ''text/xml'', ''xml''] then
           (logged, Return err)
         else
           (case Render lib devErrorTmpl (template_data c eStacks status) of
              Inl rerr \<Rightarrow> (logged, Return (Some (WithStack lib rerr)))
            | Inr t \<Rightarrow> (logged @ [WriteHeader 404, Write t], Return (Write_result c t))))"
  unfolding developerPath_def Let_def eStacks_loop_map append_Nil length_map reverse_loop_map_rev
  by (rule refl)

lemma developerPath_logs_first:
  "take 2 (fst (developerPath lib status err c)) = [Log_Error err, WriteHeader status]"
  by (simp add: developerPath_eq Let_def split: sum.split)

lemma example_Context_simps:
  "Get (example_Context env ct) ''env'' = env"
  "Get (example_Context env ct) ''routes'' = None"
  "Data (example_Context env ct) = Map.empty"
  "Header_Get (Request (example_Context env ct)) ''Content-Type'' = ct"
  "Write_result (example_Context env ct) b = None"
  "Encode_result (example_Context env ct) d = None"
  by (simp_all add: example_Context_def Header_Get_def)

text \<open>
  C2, as amended. When the context's \<^verbatim>\<open>env\<close> value is the string \<^verbatim>\<open>production\<close>, the
  handler writes the given status and then the fixed template \<open>prodErrorTmpl\<close>, and
  returns nil. It does so for every error: the result is the same whatever the error,
  and the body contains an error's message text exactly when the template's own wording
  does. When \<^verbatim>\<open>env\<close> is absent or is any other string, the developer path runs: it
  logs the error and writes the status first.
\<close>

theorem defaultErrorHandler_env:
  "(Get c ''env'' = Some (StringValue ''production'') \<longrightarrow>
      defaultErrorHandler lib status err c =
        ([WriteHeader status, Write prodErrorTmpl], Return None) \<and>
      defaultErrorHandler lib status err' c = defaultErrorHandler lib status err c \<and>
      map (\<lambda>body. Contains body (Error e))
        (bodies_written (fst (defaultErrorHandler lib status (Some e) c))) =
        [Contains prodErrorTmpl (Error e)]) \<and>
   (Get c ''env'' = None \<or> (\<exists>s. Get c ''env'' = Some (StringValue s) \<and> s \<noteq> ''production'') \<longrightarrow>
      defaultErrorHandler lib status err c = developerPath lib status err c \<and>
      take 2 (fst (defaultErrorHandler lib status err c)) = [Log_Error err, WriteHeader status])"
  by (auto simp: defaultErrorHandler_def env_production_def developerPath_logs_first)

lemma prodErrorTmpl_Contains:
  "Contains prodErrorTmpl ''something went wrong''"
  "\<not> Contains prodErrorTmpl ''boom''"
  by (simp_all add: prodErrorTmpl_def)

theorem defaultErrorHandler_env_witness:
  "defaultErrorHandler example_library 500 (Some boom)
      (example_Context (Some (StringValue ''production'')) ''text/html'') =
     ([WriteHeader 500, Write prodErrorTmpl], Return None) \<and>
   map (\<lambda>body. Contains body ''boom'')
     (bodies_written (fst (defaultErrorHandler example_library 500 (Some boom)
        (example_Context (Some (StringValue ''production'')) ''text/html'')))) = [False] \<and>
   take 2 (fst (defaultErrorHandler example_library 500 (Some boom)
      (example_Context (Some (StringValue ''test'')) ''text/html''))) =
     [Log_Error (Some boom), WriteHeader 500] \<and>
   take 2 (fst (defaultErrorHandler example_library 500 (Some boom)
      (example_Context None ''text/html''))) =
     [Log_Error (Some boom), WriteHeader 500]"
proof -
  have prod: "Get (example_Context (Some (StringValue ''production'')) ''text/html'') ''env'' =
      Some (StringValue ''production'')"
    by (simp add: example_Context_simps)
  have test: "\<exists>s. Get (example_Context (Some (StringValue ''test'')) ''text/html'') ''env'' =
      Some (StringValue s) \<and> s \<noteq> ''production''"
    by (simp add: example_Context_simps)
  have absent: "Get (example_Context None ''text/html'') ''env'' = None"
    by (simp add: example_Context_simps)
  have name: "Error boom = ''boom''"
    by (simp add: boom_def)
  note p = defaultErrorHandler_env [of "example_Context (Some (StringValue ''production'')) ''text/html''"
        example_library 500 "Some boom" "Some boom" boom]
  from p prod have p1: "defaultErrorHandler example_library 500 (Some boom)
      (example_Context (Some (StringValue ''production'')) ''text/html'') =
     ([WriteHeader 500, Write prodErrorTmpl], Return None)"
    by blast
  from p prod have "map (\<lambda>body. Contains body (Error boom))
     (bodies_written (fst (defaultErrorHandler example_library 500 (Some boom)
        (example_Context (Some (StringValue ''production'')) ''text/html'')))) =
     [Contains prodErrorTmpl (Error boom)]"
    by blast
  then have p2: "map (\<lambda>body. Contains body ''boom'')
     (bodies_written (fst (defaultErrorHandler example_library 500 (Some boom)
        (example_Context (Some (StringValue ''production'')) ''text/html'')))) = [False]"
    by (simp add: name prodErrorTmpl_Contains)
  show ?thesis
    using p1 p2
      defaultErrorHandler_env [of "example_Context (Some (StringValue ''test'')) ''text/html''"
        example_library 500 "Some boom"]
      defaultErrorHandler_env [of "example_Context None ''text/html''" example_library 500 "Some boom"]
      test absent
    by blast
qed

text \<open>
  The claim as written fails in two places. "Any other env value selects the developer
  path" fails on a value that is not a string: the unchecked type assertion panics
  before anything is logged or written. "The body never contains the error's message
  text" fails on an error whose message is part of the template's wording: the body is
  the template, which contains "something went wrong".
\<close>

theorem defaultErrorHandler_env_counterexamples:
  "defaultErrorHandler example_library 500 (Some boom)
      (example_Context (Some (IntValue 1)) ''text/html'') =
     ([], Panic (RuntimeError TypeAssertionError)) \<and>
   defaultErrorHandler example_library 500 (Some went_wrong)
      (example_Context (Some (StringValue ''production'')) ''text/html'') =
     ([WriteHeader 500, Write prodErrorTmpl], Return None) \<and>
   Contains prodErrorTmpl (Error went_wrong)"
  by (simp add: defaultErrorHandler_def env_production_def example_Context_simps went_wrong_def
        prodErrorTmpl_Contains)

lemma example_ToLower:
  "ToLower example_library ''application/json'' = ''application/json''"
  "ToLower example_library ''text/html'' = ''text/html''"
  by (simp_all add: example_library_def ascii_lower_def)

lemma json_document_dom: "dom (json_document eStacks status) = {''errors'', ''code''}"
  by (auto simp: json_document_def)

lemma developerPath_json:
  "ToLower lib (Header_Get (Request c) ''Content-Type'') \<in>
     set [''application/json'', ''text/json'', ''json''] \<Longrightarrow>
   developerPath lib status err c =
     ([Log_Error err, WriteHeader status,
       Encode (json_document (rev (map (eStack_of lib) (ErrorChain err))) status)],
      Return (Encode_result c (json_document (rev (map (eStack_of lib) (ErrorChain err))) status)))"
  unfolding developerPath_eq Let_def by simp

lemma defaultErrorHandler_json_example:
  "defaultErrorHandler example_library status err (example_Context None ''application/json'') =
     ([Log_Error err, WriteHeader status,
       Encode (json_document (rev (map (eStack_of example_library) (ErrorChain err))) status)],
      Return None)"
  by (simp add: defaultErrorHandler_def env_production_def example_Context_simps
        developerPath_json example_ToLower)

text \<open>
  C3. The claim: in developer mode with a JSON content type, for \<^verbatim>\<open>outer\<close> caused by
  \<^verbatim>\<open>inner\<close> the handler emits \<^verbatim>\<open>{"errors":[inner, outer],"code":status}\<close>. When
  \<^verbatim>\<open>inner\<close> has no \<^verbatim>\<open>Cause\<close> method, \<^verbatim>\<open>ErrorChain\<close> drops it, and the document holds
  the record of \<^verbatim>\<open>outer\<close> alone. The document has the two keys of the claim and no
  other.
\<close>

theorem defaultErrorHandler_json_drops_inner:
  "defaultErrorHandler example_library 500 (Some (outer_of inner_plain))
      (example_Context None ''application/json'') =
     ([Log_Error (Some (outer_of inner_plain)), WriteHeader 500,
       Encode (json_document [\<lparr>Msg = ''outer'', Stack = [], HasStack = False\<rparr>] 500)],
      Return None)"
  by (simp add: defaultErrorHandler_json_example ErrorChain_simps eStack_of_def
        outer_of_def inner_plain_def)

text \<open>When \<^verbatim>\<open>inner\<close> implements \<^verbatim>\<open>Causer\<close> too, the document is the one the claim gives.\<close>

lemma defaultErrorHandler_json_two_causers:
  "defaultErrorHandler example_library 500 (Some (outer_of inner_causer))
      (example_Context None ''application/json'') =
     ([Log_Error (Some (outer_of inner_causer)), WriteHeader 500,
       Encode (json_document [\<lparr>Msg = ''inner'', Stack = [], HasStack = False\<rparr>,
                              \<lparr>Msg = ''outer'', Stack = [], HasStack = False\<rparr>] 500)],
      Return None)"
  by (simp add: defaultErrorHandler_json_example ErrorChain_simps eStack_of_def
        outer_of_def inner_causer_def)

lemma eStacks_loop_nth:
  "i < length errorSlice \<Longrightarrow>
   eStacks_loop lib errorSlice [] ! i = eStack_of lib (errorSlice ! i)"
  by (simp add: eStacks_loop_map)

lemma one_frame_per_line_empty: "(one_frame_per_line frame_text st = []) = (st = [])"
  by (cases st) (simp_all add: one_frame_per_line_def)

lemma example_Sprintf_plus_v:
  "Sprintf_plus_v example_library = one_frame_per_line (\<lambda>f. ''main.handler'')"
  by (simp add: example_library_def)

text \<open>
  C4, as amended. The loop builds one display record per chain entry, each from its own
  entry alone (\<open>eStack_of\<close>). The record's \<open>HasStack\<close> is true exactly when the entry
  exposes a Trace relation. Without one the trace text is empty; with one it is the
  \<^verbatim>\<open>%+v\<close> text of the trace, whatever that is: with a formatter that is empty on the empty
  trace only, the text is non-empty exactly when the trace has a frame.
\<close>

theorem eStacks_HasStack:
  "length (eStacks_loop lib errorSlice []) = length errorSlice \<and>
   (\<forall>i < length errorSlice.
      eStacks_loop lib errorSlice [] ! i = eStack_of lib (errorSlice ! i) \<and>
      Msg (eStack_of lib (errorSlice ! i)) = Error (errorSlice ! i) \<and>
      HasStack (eStack_of lib (errorSlice ! i)) = (StackTrace (errorSlice ! i) \<noteq> None) \<and>
      (StackTrace (errorSlice ! i) = None \<longrightarrow> Stack (eStack_of lib (errorSlice ! i)) = []) \<and>
      (\<forall>st. StackTrace (errorSlice ! i) = Some st \<longrightarrow>
         Stack (eStack_of lib (errorSlice ! i)) = Sprintf_plus_v lib st \<and>
         ((\<forall>st'. (Sprintf_plus_v lib st' = []) = (st' = [])) \<longrightarrow>
          (Stack (eStack_of lib (errorSlice ! i)) \<noteq> []) = (st \<noteq> []))))"
  by (auto simp: eStacks_loop_map eStack_of_def split: option.splits)

theorem eStacks_HasStack_witness:
  "eStacks_loop example_library [MkError ''a'' (Some [7]) None, boom] [] =
     [\<lparr>Msg = ''a'', Stack = CHR 0x0A # ''main.handler'', HasStack = True\<rparr>,
      \<lparr>Msg = ''boom'', Stack = [], HasStack = False\<rparr>] \<and>
   Stack (eStack_of example_library (MkError ''a'' (Some [7]) None)) \<noteq> []"
proof -
  let ?xs = "[MkError ''a'' (Some [7]) None, boom]"
  note inst = eStacks_HasStack [of example_library ?xs]
  have fmt: "\<forall>st'. (Sprintf_plus_v example_library st' = []) = (st' = [])"
    by (simp add: example_Sprintf_plus_v one_frame_per_line_empty)
  have len: "length (eStacks_loop example_library ?xs []) = 2"
    using inst by simp
  have r0: "eStacks_loop example_library ?xs [] ! 0 = eStack_of example_library (?xs ! 0)"
    using inst by simp
  have r1: "eStacks_loop example_library ?xs [] ! 1 = eStack_of example_library (?xs ! 1)"
    using inst by simp
  have nonempty: "Stack (eStack_of example_library (?xs ! 0)) \<noteq> []"
    using inst [THEN conjunct2, rule_format, of 0] fmt by simp
  have "eStacks_loop example_library ?xs [] =
      [eStack_of example_library (?xs ! 0), eStack_of example_library (?xs ! 1)]"
    using len r0 r1 by (intro nth_equalityI) (auto simp: less_Suc_eq numeral_2_eq_2)
  then show ?thesis
    using nonempty
    by (simp add: eStack_of_def boom_def example_Sprintf_plus_v one_frame_per_line_def)
qed

text \<open>
  The claim as written, "non-empty trace text exactly when the entry exposes a Trace
  relation", fails on an entry whose \<^verbatim>\<open>StackTrace()\<close> is empty: its record has
  \<open>HasStack = True\<close> and an empty \<open>Stack\<close>.
\<close>

theorem defaultErrorHandler_empty_trace:
  "defaultErrorHandler example_library 500 (Some empty_trace_error)
      (example_Context None ''application/json'') =
     ([Log_Error (Some empty_trace_error), WriteHeader 500,
       Encode (json_document [\<lparr>Msg = ''e'', Stack = [], HasStack = True\<rparr>] 500)],
      Return None)"
  by (simp add: defaultErrorHandler_json_example empty_trace_error_def ErrorChain_simps eStack_of_def
        example_Sprintf_plus_v one_frame_per_line_def)


text \<open>
  C5, as amended. On the developer path with a content type that is neither of the JSON
  nor of the XML family, the handler has already written the status argument; when the
  template renders, it then writes the status 404, whatever the status argument is, and
  the page; when the template fails, it returns the wrapped error and never writes 404.
\<close>

theorem developerPath_html_status:
  assumes "env_production (Get c ''env'') = Return False"
    and "ToLower lib (Header_Get (Request c) ''Content-Type'') \<notin>
           set [''application/json'', ''text/json'', ''json'']"
    and "ToLower lib (Header_Get (Request c) ''Content-Type'') \<notin>
           set [''application/xml'', ''text/xml'', ''xml'']"
  shows "(\<forall>t. Render lib devErrorTmpl
              (template_data c (rev (map (eStack_of lib) (ErrorChain err))) status) = Inr t \<longrightarrow>
            defaultErrorHandler lib status err c =
              ([Log_Error err, WriteHeader status, WriteHeader 404, Write t],
               Return (Write_result c t))) \<and>
         (\<forall>rerr. Render lib devErrorTmpl
              (template_data c (rev (map (eStack_of lib) (ErrorChain err))) status) = Inl rerr \<longrightarrow>
            defaultErrorHandler lib status err c =
              ([Log_Error err, WriteHeader status], Return (Some (WithStack lib rerr))))"
  using assms unfolding defaultErrorHandler_def developerPath_eq Let_def by simp

lemma example_Render:
  "Render example_library tmpl data = Inr ''<html>''"
  "Render failing_Render_library tmpl data = Inl (MkError ''render'' None None)"
  "ToLower failing_Render_library = ToLower example_library"
  by (simp_all add: example_library_def failing_Render_library_def)

theorem developerPath_html_status_witness:
  "defaultErrorHandler example_library 500 (Some boom) (example_Context None ''text/html'') =
     ([Log_Error (Some boom), WriteHeader 500, WriteHeader 404, Write ''<html>''], Return None) \<and>
   defaultErrorHandler failing_Render_library 500 (Some boom) (example_Context None ''text/html'') =
     ([Log_Error (Some boom), WriteHeader 500],
      Return (Some (WithStack failing_Render_library (MkError ''render'' None None))))"
proof -
  let ?c = "example_Context None ''text/html''"
  have env: "env_production (Get ?c ''env'') = Return False"
    by (simp add: example_Context_simps env_production_def)
  have ct: "ToLower example_library (Header_Get (Request ?c) ''Content-Type'') = ''text/html''"
    by (simp add: example_Context_simps example_ToLower)
  have ct': "ToLower failing_Render_library (Header_Get (Request ?c) ''Content-Type'') = ''text/html''"
    by (simp add: example_Context_simps example_ToLower example_Render)
  have a: "defaultErrorHandler example_library 500 (Some boom) ?c =
     ([Log_Error (Some boom), WriteHeader 500, WriteHeader 404, Write ''<html>''], Return None)"
    using developerPath_html_status [of ?c example_library "Some boom" 500] env ct
    by (simp add: example_Render example_Context_simps)
  have b: "defaultErrorHandler failing_Render_library 500 (Some boom) ?c =
     ([Log_Error (Some boom), WriteHeader 500],
      Return (Some (WithStack failing_Render_library (MkError ''render'' None None))))"
    using developerPath_html_status [of ?c failing_Render_library "Some boom" 500] env ct'
    by (simp add: example_Render)
  show ?thesis using a b by simp
qed

text \<open>
  The claim as written, "the status written is always 404", fails: the status argument
  is written first, and 404 is not written at all when the template fails.
\<close>

theorem developerPath_html_writes_status_first:
  "statuses_written (fst (defaultErrorHandler example_library 500 (Some boom)
      (example_Context None ''text/html''))) = [500, 404] \<and>
   statuses_written (fst (defaultErrorHandler failing_Render_library 500 (Some boom)
      (example_Context None ''text/html''))) = [500]"
  by (simp add: defaultErrorHandler_def env_production_def example_Context_simps developerPath_eq
        example_ToLower example_Render)


section \<open>Properties of the Sentry middleware\<close>

subsection \<open>Stack frames\<close>

lemma frames_loop_eq:
  "n \<le> length trace \<Longrightarrow>
   frames_loop lib pfx trace n sentryFrames =
     sentryFrames @ List.map_filter (sentry_frame lib pfx) (rev (take n trace))"
proof (induction n arbitrary: sentryFrames)
  case 0
  then show ?case by (simp add: List.map_filter_simps)
next
  case (Suc i)
  then have i: "i < length trace"
    by simp
  then have tk: "rev (take (Suc i) trace) = trace ! i # rev (take i trace)"
    by (simp add: take_Suc_conv_app_nth)
  show ?case
    using Suc.IH i unfolding tk
    by (simp add: List.map_filter_simps sentry_frame_def split: option.split prod.split)
qed

lemma buildSentryStackTrace_eq:
  "buildSentryStackTrace lib err pfx =
     (case StackTrace err of
        None \<Rightarrow> None
      | Some trace \<Rightarrow> Some (Stacktrace (List.map_filter (sentry_frame lib pfx) (rev trace))))"
  by (simp add: buildSentryStackTrace_def frames_loop_eq split: option.split)

text \<open>
  C8, as amended. For a trace-bearing error \<^verbatim>\<open>buildSentryStackTrace\<close> always returns a
  stack trace, never an error. Its frames are what the entries of the captured trace
  contribute, taken in the reverse of the captured order. An entry contributes exactly
  one frame, unless its program counter resolves to no function or the frame
  constructor returns nil for it: then it is skipped.
\<close>

theorem buildSentryStackTrace_frames:
  "StackTrace err = Some trace \<Longrightarrow>
   buildSentryStackTrace lib err pfx =
     Some (Stacktrace (List.map_filter (sentry_frame lib pfx) (rev trace))) \<and>
   length (List.map_filter (sentry_frame lib pfx) (rev trace)) =
     length (filter (\<lambda>f. sentry_frame lib pfx f \<noteq> None) trace) \<and>
   (\<forall>f. (sentry_frame lib pfx f = None) =
      (FuncForPC lib (pc f) = None \<or>
       (\<exists>fn. FuncForPC lib (pc f) = Some fn \<and>
          NewStacktraceFrame lib (pc f) (fst (FileLine lib fn (pc f)))
            (snd (FileLine lib fn (pc f))) 3 pfx = None)))"
proof (intro conjI allI)
  assume st: "StackTrace err = Some trace"
  show "buildSentryStackTrace lib err pfx =
     Some (Stacktrace (List.map_filter (sentry_frame lib pfx) (rev trace)))"
    using st by (simp add: buildSentryStackTrace_eq)
next
  have "length (filter (\<lambda>f. sentry_frame lib pfx f \<noteq> None) (rev trace)) =
      length (filter (\<lambda>f. sentry_frame lib pfx f \<noteq> None) trace)"
    by (simp only: rev_filter [symmetric] length_rev)
  then show "length (List.map_filter (sentry_frame lib pfx) (rev trace)) =
     length (filter (\<lambda>f. sentry_frame lib pfx f \<noteq> None) trace)"
    by (simp add: List.map_filter_def)
next
  fix f
  show "(sentry_frame lib pfx f = None) =
      (FuncForPC lib (pc f) = None \<or>
       (\<exists>fn. FuncForPC lib (pc f) = Some fn \<and>
          NewStacktraceFrame lib (pc f) (fst (FileLine lib fn (pc f)))
            (snd (FileLine lib fn (pc f))) 3 pfx = None))"
    by (auto simp: sentry_frame_def split: option.splits prod.splits)
qed

text \<open>
  In the example library the frame 1 has the program counter 0, which resolves to no
  function, and the frame 2 resolves to \<^verbatim>\<open>runtime.goexit\<close>, for which the constructor
  returns nil.
\<close>

lemma example_frames:
  "sentry_frame example_library pfx 1 = None"
  "sentry_frame example_library pfx 2 = None"
  "sentry_frame example_library pfx 8 = Some \<lparr>Filename = ''main.go'', Lineno = 7, InApp = (pfx \<noteq> [])\<rparr>"
  "sentry_frame example_library pfx 9 = Some \<lparr>Filename = ''main.go'', Lineno = 8, InApp = (pfx \<noteq> [])\<rparr>"
  by (simp_all add: sentry_frame_def example_library_def example_FuncForPC_def pc_def
        example_NewStacktraceFrame_def)

theorem buildSentryStackTrace_frames_witness:
  "buildSentryStackTrace example_library (MkError ''e'' (Some [8, 1, 9]) None) [''main''] =
     Some (Stacktrace [\<lparr>Filename = ''main.go'', Lineno = 8, InApp = True\<rparr>,
                       \<lparr>Filename = ''main.go'', Lineno = 7, InApp = True\<rparr>])"
  using buildSentryStackTrace_frames [of "MkError ''e'' (Some [8, 1, 9]) None" "[8, 1, 9]"
      example_library "[''main'']"]
  by (simp add: List.map_filter_simps example_frames)

text \<open>
  The claim as written, "every resolvable frame yields exactly one emitted frame", fails
  on a frame that resolves to a function and for which the frame constructor returns
  nil: the code tests \<^verbatim>\<open>frame != nil\<close> and emits nothing.
\<close>

theorem buildSentryStackTrace_drops_resolvable:
  "FuncForPC example_library (pc 2) = Some ''runtime.goexit'' \<and>
   buildSentryStackTrace example_library (MkError ''e'' (Some [2]) None) [] = Some (Stacktrace [])"
proof
  show "FuncForPC example_library (pc 2) = Some ''runtime.goexit''"
    by (simp add: example_library_def example_FuncForPC_def pc_def)
  show "buildSentryStackTrace example_library (MkError ''e'' (Some [2]) None) [] =
      Some (Stacktrace [])"
    by (simp add: buildSentryStackTrace_eq List.map_filter_simps example_frames)
qed

subsection \<open>The error packet\<close>

lemma exceptions_loop_eq:
  "n \<le> length chain \<Longrightarrow>
   exceptions_loop lib prefixes chain n vals =
     vals @ map (\<lambda>e. NewException e (buildSentryStackTrace lib e prefixes)) (rev (take n chain))"
proof (induction n arbitrary: vals)
  case 0
  then show ?case by simp
next
  case (Suc i)
  then have "i < length chain"
    by simp
  then have "rev (take (Suc i) chain) = chain ! i # rev (take i chain)"
    by (simp add: take_Suc_conv_app_nth)
  with Suc show ?case by simp
qed

lemma buildErrPacket_eq:
  "buildErrPacket lib err prefixes c =
     (if ErrorChain err = [] then Panic (RuntimeError (IndexOutOfRange (- 1)))
      else Return \<lparr>Message = Error (last (ErrorChain err)),
                   Interfaces =
                     [Exceptions (map (\<lambda>e. NewException e (buildSentryStackTrace lib e prefixes))
                        (rev (ErrorChain err))),
                      NewHttp (Request c)]\<rparr>)"
  by (simp add: buildErrPacket_def Let_def exceptions_loop_eq last_conv_nth)

subsection \<open>The middleware\<close>


lemma buildErrPacket_not_PanicNil: "buildErrPacket lib err prefixes c \<noteq> PanicNil"
  by (simp add: buildErrPacket_eq)


lemma example_Sprint_simps:
  "Sprint example_library (StringValue s) = s"
  "Sprint example_library (RuntimeError (IndexOutOfRange i)) = ''runtime error: index out of range''"
  by (simp_all add: example_library_def example_Sprint_def)



text \<open>What the middleware does when nothing panics.\<close>

lemma Sentry_returns_what_next_returned:
  "next c = Return e \<Longrightarrow> snd (Sentry lib prefixes panicsOnly next c) = Return err \<Longrightarrow> err = e"
  by (auto simp: Sentry_def Sentry_body_def Let_def buildErrPacket_not_PanicNil
      split: outcome.splits if_splits prod.splits)

lemma Sentry_no_report:
  "next c = Return err \<Longrightarrow> panicsOnly \<or> err = None \<Longrightarrow>
   Sentry lib prefixes panicsOnly next c = ([], Return err)"
  by (auto simp: Sentry_def Sentry_body_def)

lemma Sentry_reports_chain:
  "next c = Return (Some e) \<Longrightarrow> \<not> panicsOnly \<Longrightarrow> ErrorChain (Some e) \<noteq> [] \<Longrightarrow>
   Sentry lib prefixes panicsOnly next c =
     ([\<lparr>Message = Error (last (ErrorChain (Some e))),
        Interfaces =
          [Exceptions (map (\<lambda>x. NewException x (buildSentryStackTrace lib x prefixes))
             (rev (ErrorChain (Some e)))),
           NewHttp (Request c)]\<rparr>],
      Return (Some e))"
  by (simp add: Sentry_def Sentry_body_def buildErrPacket_eq)

text \<open>
  C7. The claim: with \<^verbatim>\<open>panicsOnly\<close> false and a non-nil error returned, exactly one
  report is submitted for that error, with the root error's message. For \<open>boom\<close>, an
  error with no \<^verbatim>\<open>Cause\<close> method, \<^verbatim>\<open>ErrorChain\<close> returns the empty slice,
  \<^verbatim>\<open>chain[len(chain)-1]\<close> panics, and the one report submitted is the deferred
  function's, about the index out of range, before the panic is raised again.
\<close>

theorem Sentry_error_without_Cause_panics:
  "Sentry example_library [] False (\<lambda>c. Return (Some boom)) (example_Context None ''text/html'') =
     ([NewPacket ''runtime error: index out of range''
         [ExceptionInterface
            (NewException (errors_New example_library ''runtime error: index out of range'')
               (Some (NewStacktrace 3 3 []))),
          NewHttp (Request (example_Context None ''text/html''))]],
      Panic (RuntimeError (IndexOutOfRange (- 1))))"
  by (simp add: Sentry_def Sentry_body_def buildErrPacket_eq ErrorChain_no_Causer boom_def
        Let_def example_Sprint_simps)

text \<open>
  When the root of the chain has no \<^verbatim>\<open>Cause\<close> method and its wrapper has one, the report
  carries the wrapper's message and no exception for the root.
\<close>

lemma Sentry_message_not_root:
  "Sentry lib [] False (\<lambda>c. Return (Some (outer_of inner_plain))) c =
     ([\<lparr>Message = ''outer'',
        Interfaces = [Exceptions [NewException (outer_of inner_plain) None], NewHttp (Request c)]\<rparr>],
      Return (Some (outer_of inner_plain)))"
  by (simp add: Sentry_reports_chain ErrorChain_outer_inner_plain)
     (simp add: outer_of_def buildSentryStackTrace_def)

text \<open>
  C10. The claim: the middleware returns to its caller exactly the error the wrapped
  handler returned. For an error made by \<^verbatim>\<open>errors.New\<close>, which has a stack trace and no
  \<^verbatim>\<open>Cause\<close> method, the middleware does not return: it panics with the index out of
  range raised while building the report.
\<close>

theorem Sentry_does_not_return_error:
  "snd (Sentry example_library [] False
          (\<lambda>c. Return (Some (errors_New example_library ''missing'')))
          (example_Context None ''text/html'')) =
     Panic (RuntimeError (IndexOutOfRange (- 1)))"
  by (simp add: Sentry_def Sentry_body_def buildErrPacket_eq ErrorChain_no_Causer errors_New_def
        Let_def)

end
